theory Spec2Isabelle
  imports Complex_Main
begin

section \<open>Earnings calculator: the projection engine of payments_app.py\<close>

text \<open>
  The embedding follows \<^verbatim>\<open>src/payments_app.py\<close>. Python's \<^verbatim>\<open>int\<close> is \<^typ>\<open>int\<close>,
  its \<^verbatim>\<open>str\<close> is \<^typ>\<open>string\<close>, compared with the literals the source compares with.
  A Python \<^verbatim>\<open>float\<close> is represented by a \<^typ>\<open>real\<close>: every statement below is about
  exact arithmetic, and says nothing about the rounding, overflow or underflow of IEEE
  doubles.
\<close>

subsection \<open>Helpers: lifetime and churn\<close>

definition is_active_by_lifetime :: "int \<Rightarrow> int \<Rightarrow> int \<Rightarrow> string \<Rightarrow> bool" where
  "is_active_by_lifetime age_from_activation age_from_first_payment lifetime_months lifetime_mode =
     (if lifetime_months \<le> 0 then True
      else if lifetime_mode = ''From activation'' then age_from_activation < lifetime_months
      else age_from_first_payment < lifetime_months)"

text \<open>
  \<^verbatim>\<open>(1.0 - churn_rate) ** churn_age\<close> is only reached with \<^verbatim>\<open>churn_age > 0\<close>, so the
  exponent is the natural number \<open>nat churn_age\<close>.
\<close>

definition survival_factor :: "real \<Rightarrow> int \<Rightarrow> real" where
  "survival_factor churn_rate churn_age =
     (if churn_rate \<le> 0 \<or> churn_age \<le> 0 then 1
      else (1 - churn_rate) ^ nat churn_age)"

subsection \<open>Payment logic per contract\<close>

definition per_client_payment ::
  "string \<Rightarrow> int \<Rightarrow> int \<Rightarrow> int \<Rightarrow> real \<Rightarrow> real \<Rightarrow> real \<Rightarrow> real" where
  "per_client_payment contract_type age_from_activation free_months intro_months
       intro_amount recurring_amount flat_amount =
     (if age_from_activation < free_months then 0
      else let eff_age = age_from_activation - free_months in
        if contract_type = ''Intro + Recurring'' then
          (if eff_age < intro_months then intro_amount else recurring_amount)
        else flat_amount)"

subsection \<open>Core calculator\<close>

text \<open>The arguments of \<^verbatim>\<open>build_monthly_dataframe\<close>, in the order of its signature.\<close>

record params =
  months :: int
  default_new_clients :: int
  override_month :: int
  override_new_clients :: int
  cancellations_mode :: string
  cancellations :: int
  churn_percent :: real
  commission_rate :: real
  payout_policy :: string
  payout_type :: string
  use_new_sale_bonus :: bool
  new_sale_payout :: real
  payout_duration :: int
  contract_type :: string
  free_months :: int
  intro_months :: int
  intro_amount :: real
  recurring_amount :: real
  flat_amount :: real
  lifetime_months :: int
  lifetime_mode :: string
  currency :: string

text \<open>A cohort is the dictionary \<^verbatim>\<open>{"birth": m, "size": net_size}\<close>.\<close>

record cohort =
  birth :: int
  size_c :: int

text \<open>
  One row of the data frame, a field per column in the source's order. The column
  \<^verbatim>\<open>Cancellations\<close> holds the integer in Fixed mode and the string \<^verbatim>\<open>"-"\<close> otherwise.
\<close>

record row =
  Month :: int
  New_Clients :: int
  Cancellations :: "int + string"
  Mode :: string
  Net_Activations :: int
  Signed_SMEs_Cumulative :: int
  Paying_SMEs :: real
  Client_Payments_Gross :: real
  New_Sale_Income :: real
  Commission_from_Clients :: real
  Total_Monthly_Earnings :: real

text \<open>
  The body of the inner loop \<^verbatim>\<open>for c in cohorts\<close>: the accumulator is the pair
  (\<^verbatim>\<open>paying_clients_this_month\<close>, \<^verbatim>\<open>gross_client_payments\<close>), and each \<^verbatim>\<open>continue\<close>
  returns it unchanged.
\<close>

definition cohort_step :: "params \<Rightarrow> real \<Rightarrow> int \<Rightarrow> cohort \<Rightarrow> real \<times> real \<Rightarrow> real \<times> real" where
  "cohort_step p churn_rate m c acc =
     (let age_from_activation = m - birth c in
      if age_from_activation < 0 then acc
      else
        let age_from_first_payment = max (age_from_activation - free_months p) 0;
            active_by_life = is_active_by_lifetime age_from_activation age_from_first_payment
                               (lifetime_months p) (lifetime_mode p)
        in
        if \<not> active_by_life then acc
        else
          let sf = (if cancellations_mode p = ''Churn'' then
                      (let churn_age = (if lifetime_mode p = ''From activation''
                                        then age_from_activation else age_from_first_payment)
                       in survival_factor churn_rate churn_age)
                    else 1);
              per_client_gross = per_client_payment (contract_type p) age_from_activation
                                   (free_months p) (intro_months p) (intro_amount p)
                                   (recurring_amount p) (flat_amount p)
          in
          if per_client_gross > 0 then
            (let active_clients = of_int (size_c c) * sf in
             (fst acc + active_clients, snd acc + per_client_gross * active_clients))
          else acc)"

text \<open>The variables the outer loop updates: \<^verbatim>\<open>rows\<close>, \<^verbatim>\<open>cohorts\<close> and \<^verbatim>\<open>signed_cum\<close>.\<close>

record loop_state =
  rows :: "row list"
  cohorts :: "cohort list"
  signed_cum :: int

definition month_step :: "params \<Rightarrow> int \<Rightarrow> loop_state \<Rightarrow> loop_state" where
  "month_step p m s =
     (let churn_rate = max (min (churn_percent p / 100) 0.99) 0;
          include_bonus = (payout_policy p \<in> set [''Bonus only (no recurring)'', ''Bonus + Recurring'']);
          include_recurring = (payout_policy p \<in> set [''Bonus + Recurring'', ''Recurring only (no bonus)'']);
          bonus_is_commissionable = (payout_type p = ''Commissionable (x%)'');
          new_clients_this_month =
            (if override_month p = m \<and> override_month p > 0 then override_new_clients p
             else default_new_clients p);
          net_size = (if cancellations_mode p = ''Fixed''
                      then max (new_clients_this_month - cancellations p) 0
                      else new_clients_this_month);
          cohorts' = cohorts s @ [\<lparr>birth = m, size_c = net_size\<rparr>];
          signed_cum' = signed_cum s + net_size;
          acc = (if include_recurring then fold (cohort_step p churn_rate m) cohorts' (0, 0)
                 else (0, 0));
          paying_clients_this_month = fst acc;
          gross_client_payments = snd acc;
          commission_from_clients =
            (if include_recurring then gross_client_payments * commission_rate p else 0);
          bonus_raw = (if include_bonus \<and> use_new_sale_bonus p \<and> payout_duration p > 0
                          \<and> m \<le> payout_duration p
                       then new_sale_payout p * of_int new_clients_this_month else 0);
          bonus_to_agent = (if bonus_is_commissionable then bonus_raw * commission_rate p
                            else bonus_raw);
          total = (if payout_policy p = ''Bonus only (no recurring)'' then bonus_to_agent
                   else if payout_policy p = ''Recurring only (no bonus)'' then commission_from_clients
                   else bonus_to_agent + commission_from_clients)
      in \<lparr>rows = rows s @
             [\<lparr>Month = m,
               New_Clients = new_clients_this_month,
               Cancellations = (if cancellations_mode p = ''Fixed'' then Inl (cancellations p)
                                else Inr ''-''),
               Mode = cancellations_mode p,
               Net_Activations = net_size,
               Signed_SMEs_Cumulative = signed_cum',
               Paying_SMEs = paying_clients_this_month,
               Client_Payments_Gross = gross_client_payments,
               New_Sale_Income = bonus_to_agent,
               Commission_from_Clients = commission_from_clients,
               Total_Monthly_Earnings = total\<rparr>],
           cohorts = cohorts',
           signed_cum = signed_cum'\<rparr>)"

text \<open>
  \<^verbatim>\<open>for m in range(1, months + 1)\<close> runs the body over \<open>[1..months]\<close>, which is empty
  when \<open>months \<le> 0\<close>, from empty lists and \<^verbatim>\<open>signed_cum = 0\<close>.
\<close>

definition build_monthly_dataframe :: "params \<Rightarrow> row list" where
  "build_monthly_dataframe p =
     rows (fold (month_step p) [1..months p] \<lparr>rows = [], cohorts = [], signed_cum = 0\<rparr>)"

subsection \<open>Yearly totals\<close>

record yearly_row =
  Year :: int
  Client_Payments_Gross_y :: real
  New_Sale_Income_y :: real
  Commission_from_Clients_y :: real
  Total_Yearly_Earnings :: real

text \<open>
  The column \<^verbatim>\<open>Year\<close> is \<^verbatim>\<open>(Month - 1) // 12 + 1\<close>; Python's floor division on
  integers is \<open>div\<close> on \<^typ>\<open>int\<close>. \<^verbatim>\<open>groupby("Year", as_index=False).agg(... "sum")\<close>
  of the pandas library gives one row for each distinct key, the keys sorted in ascending
  order, each column summed over the rows of the group.

  \<^verbatim>\<open>pd.DataFrame(rows)\<close> of an empty list of rows is a frame without columns, on which
  \<^verbatim>\<open>out["Month"]\<close> raises \<^verbatim>\<open>KeyError\<close>.
\<close>

datatype py_error = KeyError

definition year_of :: "row \<Rightarrow> int" where
  "year_of r = (Month r - 1) div 12 + 1"

definition yearly_totals :: "row list \<Rightarrow> py_error + yearly_row list" where
  "yearly_totals df =
     (if df = [] then Inl KeyError
      else Inr (map (\<lambda>y. let g = filter (\<lambda>r. year_of r = y) df in
                  \<lparr>Year = y,
                   Client_Payments_Gross_y = sum_list (map Client_Payments_Gross g),
                   New_Sale_Income_y = sum_list (map New_Sale_Income g),
                   Commission_from_Clients_y = sum_list (map Commission_from_Clients g),
                   Total_Yearly_Earnings = sum_list (map Total_Monthly_Earnings g)\<rparr>)
               (sort (remdups (map year_of df)))))"

subsection \<open>The loop, iteration by iteration\<close>

text \<open>
  Two names for the proofs: the state of the outer loop after its first \<open>n\<close> iterations,
  and the row that the iteration for month \<open>m\<close> appends when it starts in state \<open>s\<close>.
\<close>

definition loop_upto :: "params \<Rightarrow> nat \<Rightarrow> loop_state" where
  "loop_upto p n = fold (month_step p) [1..int n] \<lparr>rows = [], cohorts = [], signed_cum = 0\<rparr>"

definition new_row :: "params \<Rightarrow> int \<Rightarrow> loop_state \<Rightarrow> row" where
  "new_row p m s = last (rows (month_step p m s))"

subsection \<open>Scenarios\<close>

text \<open>
  Two parameter sets of the specification's scenarios: the bonus-only one (bonus 160 per
  client for the first month, 12 new clients a month, commission 50%, horizon 3) and the
  override one (horizon 12, 10 new clients a month, 50 in month 3).
\<close>

definition scenario_bonus_only :: params where
  "scenario_bonus_only =
     \<lparr>months = 3, default_new_clients = 12, override_month = 0, override_new_clients = 0,
      cancellations_mode = ''Fixed'', cancellations = 0, churn_percent = 0,
      commission_rate = 1/2, payout_policy = ''Bonus only (no recurring)'',
      payout_type = ''Commissionable (x%)'', use_new_sale_bonus = True, new_sale_payout = 160,
      payout_duration = 1, contract_type = ''Flat Monthly'', free_months = 0,
      intro_months = 0, intro_amount = 0, recurring_amount = 0, flat_amount = 100,
      lifetime_months = 0, lifetime_mode = ''From activation'', currency = ''GBP''\<rparr>"

definition scenario_override :: params where
  "scenario_override =
     \<lparr>months = 12, default_new_clients = 10, override_month = 3, override_new_clients = 50,
      cancellations_mode = ''Fixed'', cancellations = 0, churn_percent = 0,
      commission_rate = 1, payout_policy = ''Recurring only (no bonus)'',
      payout_type = ''Flat (direct)'', use_new_sale_bonus = False, new_sale_payout = 0,
      payout_duration = 0, contract_type = ''Flat Monthly'', free_months = 0,
      intro_months = 0, intro_amount = 0, recurring_amount = 0, flat_amount = 100,
      lifetime_months = 0, lifetime_mode = ''From activation'', currency = ''GBP''\<rparr>"

subsection \<open>Input constraints\<close>

text \<open>
  The constraints that the caller of the engine enforces: a horizon of at least one month,
  a commission rate in \<open>[0, 1]\<close>, a churn percentage in \<open>[0, 100]\<close>, and no negative
  amount, month count, new-client count or cancellation count.
\<close>

definition declared_constraints :: "params \<Rightarrow> bool" where
  "declared_constraints p \<longleftrightarrow>
     1 \<le> months p
     \<and> 0 \<le> commission_rate p \<and> commission_rate p \<le> 1
     \<and> 0 \<le> churn_percent p \<and> churn_percent p \<le> 100
     \<and> 0 \<le> new_sale_payout p \<and> 0 \<le> intro_amount p \<and> 0 \<le> recurring_amount p
     \<and> 0 \<le> flat_amount p
     \<and> 0 \<le> override_month p \<and> 0 \<le> payout_duration p \<and> 0 \<le> free_months p
     \<and> 0 \<le> intro_months p \<and> 0 \<le> lifetime_months p
     \<and> 0 \<le> default_new_clients p \<and> 0 \<le> override_new_clients p \<and> 0 \<le> cancellations p"

section \<open>The helpers\<close>

text \<open>
  C5. The contract pricing rule returns 0 while \<open>age_from_activation < free_months\<close>;
  afterwards, with \<open>eff_age = age_from_activation - free_months\<close>, an Intro + Recurring
  contract pays \<open>intro_amount\<close> while \<open>eff_age < intro_months\<close> and \<open>recurring_amount\<close>
  from then on, and every other contract type (Flat) pays \<open>flat_amount\<close> at every age.
  The equation holds for all inputs, the non-negative ones among them.
\<close>

theorem per_client_payment_cases:
  "per_client_payment ct age fm im ia ra fa =
     (if age < fm then 0
      else if ct = ''Intro + Recurring'' \<and> age - fm < im then ia
      else if ct = ''Intro + Recurring'' \<and> age - fm \<ge> im then ra
      else fa)"
  by (simp add: per_client_payment_def)

text \<open>
  C7. Deactivation by the lifetime gate is monotone: with \<open>age_from_first_payment\<close>
  computed as \<open>max (age - free_months) 0\<close>, a cohort that is inactive at age \<open>a\<close> is
  inactive at every later age \<open>b\<close>, for every lifetime limit, counting mode and
  free-months count.
\<close>

theorem lifetime_gate_monotone:
  "a < b \<Longrightarrow>
   \<not> is_active_by_lifetime a (max (a - fm) 0) lm mode \<Longrightarrow>
   \<not> is_active_by_lifetime b (max (b - fm) 0) lm mode"
  by (auto simp: is_active_by_lifetime_def split: if_splits)

theorem lifetime_gate_monotone_witness:
  "(3::int) < 7
   \<and> \<not> is_active_by_lifetime 3 (max (3 - 1) 0) 2 ''After free months''
   \<and> \<not> is_active_by_lifetime 7 (max (7 - 1) 0) 2 ''After free months''"
proof -
  have lt: "(3::int) < 7" by simp
  have off: "\<not> is_active_by_lifetime 3 (max (3 - 1) 0) 2 ''After free months''"
    by (simp add: is_active_by_lifetime_def)
  from lt off lifetime_gate_monotone [OF lt off] show ?thesis by simp
qed

section \<open>The engine\<close>

subsection \<open>The rows of the loop\<close>

text \<open>
  The loop over \<open>[1..months]\<close> appends one row per iteration, so the row at index \<open>i\<close>
  is the one that the iteration for month \<open>i + 1\<close> appended, starting from the state
  after \<open>i\<close> iterations.
\<close>

lemma upto_int_Suc: "[1..int (Suc n)] = [1..int n] @ [int n + 1]"
  using upto_rec2 [of 1 "int n + 1"] by (simp add: add.commute)

lemma loop_upto_0: "loop_upto p 0 = \<lparr>rows = [], cohorts = [], signed_cum = 0\<rparr>"
  by (simp add: loop_upto_def)

lemma loop_upto_Suc: "loop_upto p (Suc n) = month_step p (int n + 1) (loop_upto p n)"
  unfolding loop_upto_def upto_int_Suc by simp

lemma upto_int_nat: "[1..int (nat k)] = [1..k]"
  by (cases "0 \<le> k") simp_all

lemma build_loop_upto: "build_monthly_dataframe p = rows (loop_upto p (nat (months p)))"
  unfolding build_monthly_dataframe_def loop_upto_def upto_int_nat ..

lemma rows_month_step: "rows (month_step p m s) = rows s @ [new_row p m s]"
  by (simp add: new_row_def month_step_def Let_def)

lemma length_rows_loop: "length (rows (loop_upto p n)) = n"
  by (induction n) (simp_all add: loop_upto_0 loop_upto_Suc rows_month_step)

lemma nth_rows_loop:
  "i < n \<Longrightarrow> rows (loop_upto p n) ! i = new_row p (int i + 1) (loop_upto p i)"
proof (induction n)
  case 0
  then show ?case by simp
next
  case (Suc n)
  show ?case
  proof (cases "i = n")
    case True
    then show ?thesis
      by (simp add: loop_upto_Suc rows_month_step nth_append length_rows_loop)
  next
    case False
    with Suc have "i < n" by simp
    with Suc.IH show ?thesis
      by (simp add: loop_upto_Suc rows_month_step nth_append length_rows_loop)
  qed
qed

lemma length_build: "length (build_monthly_dataframe p) = nat (months p)"
  by (simp add: build_loop_upto length_rows_loop)

lemma nth_build:
  "i < nat (months p) \<Longrightarrow>
     build_monthly_dataframe p ! i = new_row p (int i + 1) (loop_upto p i)"
  by (simp add: build_loop_upto nth_rows_loop)

lemma month_row:
  "1 \<le> m \<Longrightarrow> m \<le> months p \<Longrightarrow>
     build_monthly_dataframe p ! nat (m - 1) = new_row p m (loop_upto p (nat (m - 1)))"
  using nth_build [of "nat (m - 1)" p] by simp

lemma Month_new_row: "Month (new_row p m s) = m"
  by (simp add: new_row_def month_step_def Let_def)

lemma New_Clients_new_row:
  "New_Clients (new_row p m s) =
     (if override_month p = m \<and> override_month p > 0 then override_new_clients p
      else default_new_clients p)"
  by (simp add: new_row_def month_step_def Let_def)

lemma New_Sale_Income_new_row:
  "New_Sale_Income (new_row p m s) =
     (if (payout_policy p = ''Bonus only (no recurring)'' \<or> payout_policy p = ''Bonus + Recurring'')
          \<and> use_new_sale_bonus p \<and> payout_duration p > 0 \<and> m \<le> payout_duration p
      then (if payout_type p = ''Commissionable (x%)''
            then new_sale_payout p * of_int (New_Clients (new_row p m s)) * commission_rate p
            else new_sale_payout p * of_int (New_Clients (new_row p m s)))
      else 0)"
  by (auto simp: new_row_def month_step_def Let_def)

lemma recurring_off_new_row:
  "payout_policy p = ''Bonus only (no recurring)'' \<Longrightarrow>
     Commission_from_Clients (new_row p m s) = 0 \<and> Client_Payments_Gross (new_row p m s) = 0
     \<and> Paying_SMEs (new_row p m s) = 0"
  by (simp add: new_row_def month_step_def Let_def)

lemma Total_new_row:
  "Total_Monthly_Earnings (new_row p m s) =
     (if payout_policy p = ''Bonus only (no recurring)'' then New_Sale_Income (new_row p m s)
      else if payout_policy p = ''Recurring only (no bonus)''
        then Commission_from_Clients (new_row p m s)
      else New_Sale_Income (new_row p m s) + Commission_from_Clients (new_row p m s))"
  by (simp add: new_row_def month_step_def Let_def)

subsection \<open>A scenario, and the currency label\<close>

text \<open>
  C1. Horizon 3, Fixed mode with 0 cancellations, unlimited lifetime, Flat contract with
  flat amount 100, no free months, commission rate 0.5, Recurring-only policy, 1 new
  client per month, no override: the rows are those of months 1, 2, 3, their gross client
  payments are 100, 200, 300 and their commissions 50, 100, 150. The parameters that the
  scenario leaves open are arbitrary.
\<close>

theorem scenario_flat_recurring_only:
  "(let df = build_monthly_dataframe
       \<lparr>months = 3, default_new_clients = 1, override_month = 0, override_new_clients = onc,
        cancellations_mode = ''Fixed'', cancellations = 0, churn_percent = cp,
        commission_rate = 1/2, payout_policy = ''Recurring only (no bonus)'',
        payout_type = pt, use_new_sale_bonus = ub, new_sale_payout = nsp,
        payout_duration = pd, contract_type = ''Flat Monthly'', free_months = 0,
        intro_months = im, intro_amount = ia, recurring_amount = ra, flat_amount = 100,
        lifetime_months = 0, lifetime_mode = lm, currency = cur\<rparr>
    in map Month df = [1, 2, 3]
       \<and> map Client_Payments_Gross df = [100, 200, 300]
       \<and> map Commission_from_Clients df = [50, 100, 150])"
  by (simp add: upto.simps [of 1] build_monthly_dataframe_def month_step_def cohort_step_def
      Let_def is_active_by_lifetime_def per_client_payment_def)

text \<open>
  C9. The engine is a function of its parameter set, so equal parameter sets give equal
  row sequences; and the currency label does not enter the computation: replacing it by
  any other label leaves the row sequence unchanged.
\<close>

theorem currency_is_a_label:
  "build_monthly_dataframe (p\<lparr>currency := c\<rparr>) = build_monthly_dataframe p"
proof -
  have inner: "cohort_step (p\<lparr>currency := c\<rparr>) = cohort_step p"
    by (simp add: fun_eq_iff cohort_step_def Let_def)
  have "month_step (p\<lparr>currency := c\<rparr>) m s = month_step p m s" for m s
  proof (cases p)
    case (fields a1 a2 a3 a4 a5 a6 a7 a8 a9 a10 a11 a12 a13 a14 a15 a16 a17 a18 a19 a20 a21 a22)
    show ?thesis
      unfolding month_step_def inner
      unfolding fields
      by (simp only: params.select_convs params.update_convs)
  qed
  then have outer: "month_step (p\<lparr>currency := c\<rparr>) = month_step p"
    by (simp add: fun_eq_iff)
  have "months (p\<lparr>currency := c\<rparr>) = months p"
    by simp
  then show ?thesis
    unfolding build_monthly_dataframe_def outer by (simp only:)
qed

subsection \<open>New clients, bonus and policy, row by row\<close>

text \<open>
  C3. For every parameter set and every simulated month \<open>m\<close> (from 1 to the horizon),
  the row of month \<open>m\<close> has \<open>New Clients\<close> equal to the override value if \<open>m\<close> is the
  override month and the override is on (its month is positive), and to the default count
  otherwise. In particular an override value of zero is used in the override month.
\<close>

theorem new_clients_override_or_default:
  "1 \<le> m \<Longrightarrow> m \<le> months p \<Longrightarrow>
   (let r = build_monthly_dataframe p ! nat (m - 1) in
      Month r = m
      \<and> New_Clients r = (if m = override_month p \<and> override_month p > 0
                          then override_new_clients p else default_new_clients p)
      \<and> (m = override_month p \<and> override_new_clients p = 0 \<longrightarrow> New_Clients r = 0))"
  by (auto simp: month_row Month_new_row New_Clients_new_row Let_def)

theorem new_clients_override_or_default_witness:
  "(1::int) \<le> 3 \<and> 3 \<le> months scenario_override
   \<and> Month (build_monthly_dataframe scenario_override ! nat (3 - 1)) = 3
   \<and> New_Clients (build_monthly_dataframe scenario_override ! nat (3 - 1)) = 50
   \<and> Month (build_monthly_dataframe scenario_override ! nat (4 - 1)) = 4
   \<and> New_Clients (build_monthly_dataframe scenario_override ! nat (4 - 1)) = 10
   \<and> 3 = override_month (scenario_override\<lparr>override_new_clients := 0\<rparr>)
   \<and> override_new_clients (scenario_override\<lparr>override_new_clients := 0\<rparr>) = 0
   \<and> New_Clients (build_monthly_dataframe (scenario_override\<lparr>override_new_clients := 0\<rparr>)
         ! nat (3 - 1)) = 0"
  using new_clients_override_or_default [of 3 scenario_override]
    new_clients_override_or_default [of 4 scenario_override]
    new_clients_override_or_default [of 3 "scenario_override\<lparr>override_new_clients := 0\<rparr>"]
  by (simp add: scenario_override_def Let_def)

text \<open>
  C2. For every parameter set and every simulated month \<open>m\<close>, the \<open>New Sale Income\<close> of
  the row of month \<open>m\<close> is 0 unless the payout policy includes the bonus, the bonus usage
  flag is set, \<open>payout_duration > 0\<close> and \<open>m \<le> payout_duration\<close>; when all these hold
  it is \<open>new_sale_payout\<close> times the \<open>New Clients\<close> of that same row (this month's
  count), times the commission rate if the payout type is Commissionable and unchanged
  otherwise (Flat).
\<close>

theorem new_sale_income_of_month:
  "1 \<le> m \<Longrightarrow> m \<le> months p \<Longrightarrow>
   (let r = build_monthly_dataframe p ! nat (m - 1) in
      Month r = m
      \<and> New_Sale_Income r =
         (if payout_policy p \<in> {''Bonus only (no recurring)'', ''Bonus + Recurring''}
              \<and> use_new_sale_bonus p \<and> payout_duration p > 0 \<and> m \<le> payout_duration p
          then (if payout_type p = ''Commissionable (x%)''
                then new_sale_payout p * of_int (New_Clients r) * commission_rate p
                else new_sale_payout p * of_int (New_Clients r))
          else 0))"
  by (simp add: month_row Month_new_row New_Sale_Income_new_row Let_def)

theorem new_sale_income_of_month_witness:
  "(1::int) \<le> 1 \<and> 1 \<le> months scenario_bonus_only
   \<and> New_Sale_Income (build_monthly_dataframe scenario_bonus_only ! nat (1 - 1)) = 960
   \<and> (1::int) \<le> 2 \<and> 2 \<le> months scenario_bonus_only
   \<and> New_Sale_Income (build_monthly_dataframe scenario_bonus_only ! nat (2 - 1)) = 0"
proof -
  have "New_Clients (build_monthly_dataframe scenario_bonus_only ! nat (1 - 1)) = 12"
    using month_row [of 1 scenario_bonus_only]
    by (simp add: New_Clients_new_row scenario_bonus_only_def)
  then show ?thesis
    using new_sale_income_of_month [of 1 scenario_bonus_only]
      new_sale_income_of_month [of 2 scenario_bonus_only]
    by (simp add: scenario_bonus_only_def Let_def)
qed

text \<open>
  C4. For every parameter set and every emitted row: under the Recurring-only policy
  \<open>New Sale Income\<close> is 0; under the Bonus-only policy \<open>Commission from Clients\<close>, the
  gross client payments and the paying-clients count are 0; and \<open>Total Monthly Earnings\<close>
  is the bonus contribution under Bonus-only, the commission under Recurring-only and
  their sum under Bonus + Recurring.
\<close>

theorem policy_partition:
  "i < length (build_monthly_dataframe p) \<Longrightarrow>
   (let r = build_monthly_dataframe p ! i in
      (payout_policy p = ''Recurring only (no bonus)'' \<longrightarrow> New_Sale_Income r = 0)
      \<and> (payout_policy p = ''Bonus only (no recurring)'' \<longrightarrow>
            Commission_from_Clients r = 0 \<and> Client_Payments_Gross r = 0 \<and> Paying_SMEs r = 0)
      \<and> (payout_policy p = ''Bonus only (no recurring)'' \<longrightarrow>
            Total_Monthly_Earnings r = New_Sale_Income r)
      \<and> (payout_policy p = ''Recurring only (no bonus)'' \<longrightarrow>
            Total_Monthly_Earnings r = Commission_from_Clients r)
      \<and> (payout_policy p = ''Bonus + Recurring'' \<longrightarrow>
            Total_Monthly_Earnings r = New_Sale_Income r + Commission_from_Clients r))"
  by (simp add: length_build nth_build New_Sale_Income_new_row recurring_off_new_row
      Total_new_row Let_def)

theorem policy_partition_witness:
  "0 < length (build_monthly_dataframe scenario_bonus_only)
   \<and> payout_policy scenario_bonus_only = ''Bonus only (no recurring)''
   \<and> Commission_from_Clients (build_monthly_dataframe scenario_bonus_only ! 0) = 0
   \<and> Client_Payments_Gross (build_monthly_dataframe scenario_bonus_only ! 0) = 0
   \<and> Paying_SMEs (build_monthly_dataframe scenario_bonus_only ! 0) = 0
   \<and> Total_Monthly_Earnings (build_monthly_dataframe scenario_bonus_only ! 0)
       = New_Sale_Income (build_monthly_dataframe scenario_bonus_only ! 0)"
proof -
  have len: "0 < length (build_monthly_dataframe scenario_bonus_only)"
    by (simp add: length_build) (simp add: scenario_bonus_only_def)
  have pol: "payout_policy scenario_bonus_only = ''Bonus only (no recurring)''"
    by (simp add: scenario_bonus_only_def)
  from len pol policy_partition [OF len] show ?thesis
    by (simp add: Let_def)
qed

subsection \<open>Signs of the accumulated quantities\<close>

lemma survival_factor_nonneg: "rate \<le> 1 \<Longrightarrow> 0 \<le> survival_factor rate age"
  by (simp add: survival_factor_def)

lemma cohort_step_nonneg:
  assumes "rate \<le> 1" and "0 \<le> size_c c" and "0 \<le> fst acc" and "0 \<le> snd acc"
  shows "0 \<le> fst (cohort_step p rate m c acc) \<and> 0 \<le> snd (cohort_step p rate m c acc)"
proof -
  have sf: "0 \<le> real_of_int (size_c c) * survival_factor rate age" for age
    using assms by (simp add: survival_factor_nonneg)
  show ?thesis
    using assms sf by (simp add: cohort_step_def Let_def)
qed

lemma fold_cohort_step_nonneg:
  "rate \<le> 1 \<Longrightarrow> \<forall>c\<in>set cs. 0 \<le> size_c c \<Longrightarrow> 0 \<le> fst acc \<Longrightarrow> 0 \<le> snd acc \<Longrightarrow>
     0 \<le> fst (fold (cohort_step p rate m) cs acc) \<and> 0 \<le> snd (fold (cohort_step p rate m) cs acc)"
proof (induction cs arbitrary: acc)
  case Nil
  then show ?case by simp
next
  case (Cons c cs)
  have "0 \<le> fst (cohort_step p rate m c acc) \<and> 0 \<le> snd (cohort_step p rate m c acc)"
    using Cons.prems by (intro cohort_step_nonneg) simp_all
  with Cons show ?case by simp
qed

lemma Net_Activations_nonneg:
  "0 \<le> default_new_clients p \<Longrightarrow> 0 \<le> override_new_clients p \<Longrightarrow>
     0 \<le> Net_Activations (new_row p m s)"
  by (simp add: new_row_def month_step_def Let_def)

lemma cohorts_month_step:
  "cohorts (month_step p m s) = cohorts s @ [\<lparr>birth = m, size_c = Net_Activations (new_row p m s)\<rparr>]"
  by (simp add: new_row_def month_step_def Let_def)

lemma signed_cum_month_step:
  "signed_cum (month_step p m s) = signed_cum s + Net_Activations (new_row p m s)"
  by (simp add: new_row_def month_step_def Let_def)

lemma Signed_new_row:
  "Signed_SMEs_Cumulative (new_row p m s) = signed_cum (month_step p m s)"
  by (simp add: new_row_def month_step_def Let_def)

lemma recurring_new_row:
  "Paying_SMEs (new_row p m s) =
     (if payout_policy p = ''Bonus + Recurring'' \<or> payout_policy p = ''Recurring only (no bonus)''
      then fst (fold (cohort_step p (max (min (churn_percent p / 100) 0.99) 0) m)
                  (cohorts (month_step p m s)) (0, 0))
      else 0)"
  "Client_Payments_Gross (new_row p m s) =
     (if payout_policy p = ''Bonus + Recurring'' \<or> payout_policy p = ''Recurring only (no bonus)''
      then snd (fold (cohort_step p (max (min (churn_percent p / 100) 0.99) 0) m)
                  (cohorts (month_step p m s)) (0, 0))
      else 0)"
  "Commission_from_Clients (new_row p m s) =
     (if payout_policy p = ''Bonus + Recurring'' \<or> payout_policy p = ''Recurring only (no bonus)''
      then Client_Payments_Gross (new_row p m s) * commission_rate p
      else 0)"
  by (simp_all add: new_row_def month_step_def Let_def)

section \<open>Yearly totals\<close>

text \<open>
  For a frame whose row at index \<open>i\<close> is the row of month \<open>i + 1\<close>, the group of year
  \<open>k + 1\<close> is the run of at most twelve rows that starts at index \<open>12 * k\<close>.
\<close>

lemma div12_image: "(\<lambda>i::nat. i div 12) ` {0..<N} = {0..<(N + 11) div 12}"
proof (intro equalityI subsetI)
  fix k assume "k \<in> (\<lambda>i::nat. i div 12) ` {0..<N}"
  then show "k \<in> {0..<(N + 11) div 12}" by auto
next
  fix k assume "k \<in> {0..<(N + 11) div 12}"
  then have "12 * k < N" "(12 * k) div 12 = k" by auto
  then show "k \<in> (\<lambda>i::nat. i div 12) ` {0..<N}"
    by (metis atLeastLessThan_iff image_eqI zero_le)
qed

lemma years_of_indices:
  "sort (remdups (map (\<lambda>i. int (i div 12) + 1) [0..<N])) =
     map (\<lambda>k. int k + 1) [0..<(N + 11) div 12]"
proof (rule sorted_distinct_set_unique)
  show "sorted (sort (remdups (map (\<lambda>i. int (i div 12) + 1) [0..<N])))" by simp
  show "distinct (sort (remdups (map (\<lambda>i. int (i div 12) + 1) [0..<N])))" by simp
  show "sorted (map (\<lambda>k. int k + 1) [0..<(N + 11) div 12])"
    by (simp add: sorted_map sorted_wrt_iff_nth_less)
  show "distinct (map (\<lambda>k. int k + 1) [0..<(N + 11) div 12])"
    by (simp add: distinct_map inj_on_def)
  have "set (sort (remdups (map (\<lambda>i. int (i div 12) + 1) [0..<N])))
          = (\<lambda>k. int k + 1) ` ((\<lambda>i::nat. i div 12) ` {0..<N})"
    by (simp add: image_image)
  also have "\<dots> = set (map (\<lambda>k. int k + 1) [0..<(N + 11) div 12])"
    by (simp add: div12_image)
  finally show "set (sort (remdups (map (\<lambda>i. int (i div 12) + 1) [0..<N])))
          = set (map (\<lambda>k. int k + 1) [0..<(N + 11) div 12])" .
qed

lemma filter_year_indices:
  "filter (\<lambda>i. i div 12 = k) [0..<N] = take 12 (drop (12 * k) [0..<N])"
proof -
  have "filter (\<lambda>i. i div 12 = k) [0..<N] = [12 * k..<min (12 * k + 12) N]"
  proof (rule sorted_distinct_set_unique)
    show "set (filter (\<lambda>i. i div 12 = k) [0..<N]) = set [12 * k..<min (12 * k + 12) N]"
      by auto
  qed (simp_all add: sorted_wrt_filter)
  moreover have "take 12 (drop (12 * k) [0..<N]) = [12 * k..<min (12 * k + 12) N]"
    by (cases "12 * k + 12 \<le> N") (simp_all add: min_def)
  ultimately show ?thesis by simp
qed

lemma year_of_nth:
  assumes "\<forall>i<length df. Month (df ! i) = int i + 1" and "i < length df"
  shows "year_of (df ! i) = int (i div 12) + 1"
  using assms by (simp add: year_of_def zdiv_int)

lemma map_year_of:
  assumes "\<forall>i<length df. Month (df ! i) = int i + 1"
  shows "map year_of df = map (\<lambda>i. int (i div 12) + 1) [0..<length df]"
  by (rule nth_equalityI) (simp_all add: year_of_nth [OF assms])

lemma filter_year:
  assumes "\<forall>i<length df. Month (df ! i) = int i + 1"
  shows "filter (\<lambda>r. year_of r = int k + 1) df = take 12 (drop (12 * k) df)"
proof -
  have "filter (\<lambda>r. year_of r = int k + 1) (map ((!) df) [0..<length df])
          = map ((!) df) (filter (\<lambda>i. year_of (df ! i) = int k + 1) [0..<length df])"
    by (simp add: filter_map comp_def)
  also have "filter (\<lambda>i. year_of (df ! i) = int k + 1) [0..<length df]
          = filter (\<lambda>i. i div 12 = k) [0..<length df]"
    by (rule filter_cong) (simp_all add: year_of_nth [OF assms])
  also have "map ((!) df) (filter (\<lambda>i. i div 12 = k) [0..<length df])
          = take 12 (drop (12 * k) (map ((!) df) [0..<length df]))"
    by (simp only: filter_year_indices take_map drop_map)
  finally show ?thesis by (simp only: map_nth)
qed

lemma yearly_totals_chunks:
  assumes "\<forall>i<length df. Month (df ! i) = int i + 1" and "df \<noteq> []"
  shows "yearly_totals df =
     Inr (map (\<lambda>k. let g = take 12 (drop (12 * k) df) in
            \<lparr>Year = int k + 1,
             Client_Payments_Gross_y = sum_list (map Client_Payments_Gross g),
             New_Sale_Income_y = sum_list (map New_Sale_Income g),
             Commission_from_Clients_y = sum_list (map Commission_from_Clients g),
             Total_Yearly_Earnings = sum_list (map Total_Monthly_Earnings g)\<rparr>)
         [0..<(length df + 11) div 12])"
  unfolding yearly_totals_def map_year_of [OF assms(1)] years_of_indices
  using assms(2) by (simp add: comp_def filter_year [OF assms(1)])

lemma Month_build:
  "\<forall>i<length (build_monthly_dataframe p). Month (build_monthly_dataframe p ! i) = int i + 1"
  by (simp add: length_build nth_build Month_new_row)

lemma map_Month_build: "map Month (build_monthly_dataframe p) = [1..months p]"
proof (rule nth_equalityI)
  show "length (map Month (build_monthly_dataframe p)) = length [1..months p]"
    by (simp add: length_build)
next
  fix i assume "i < length (map Month (build_monthly_dataframe p))"
  then show "map Month (build_monthly_dataframe p) ! i = [1..months p] ! i"
    using Month_build [of p] by (simp add: length_build)
qed

text \<open>
  C8. For the rows that the engine produces for a horizon of at least one month: the rows
  are those of months 1 to the horizon in order, month \<open>m\<close> is assigned to year
  \<open>(m - 1) div 12 + 1\<close>, and the yearly aggregator returns one totals row per year, in
  ascending year order, in which gross client payments, new-sale income, commission from
  clients and total earnings are each the sum of that column over the year's months: the
  run of twelve consecutive rows of that year, or the fewer rows of a partial last year.
\<close>

theorem yearly_totals_sum_identity:
  "1 \<le> months p \<Longrightarrow>
   map Month (build_monthly_dataframe p) = [1..months p]
   \<and> map year_of (build_monthly_dataframe p) = map (\<lambda>m. (m - 1) div 12 + 1) [1..months p]
   \<and> yearly_totals (build_monthly_dataframe p) =
       Inr (map (\<lambda>k. let g = take 12 (drop (12 * k) (build_monthly_dataframe p)) in
              \<lparr>Year = int k + 1,
               Client_Payments_Gross_y = sum_list (map Client_Payments_Gross g),
               New_Sale_Income_y = sum_list (map New_Sale_Income g),
               Commission_from_Clients_y = sum_list (map Commission_from_Clients g),
               Total_Yearly_Earnings = sum_list (map Total_Monthly_Earnings g)\<rparr>)
           [0..<(nat (months p) + 11) div 12])"
proof -
  assume "1 \<le> months p"
  then have ne: "build_monthly_dataframe p \<noteq> []"
    using length_build [of p] by auto
  have "map year_of (build_monthly_dataframe p)
          = map (\<lambda>m. (m - 1) div 12 + 1) (map Month (build_monthly_dataframe p))"
    by (simp add: year_of_def)
  then show ?thesis
    using yearly_totals_chunks [OF Month_build [of p] ne]
    by (simp only: map_Month_build length_build simp_thms)
qed

theorem yearly_totals_sum_identity_witness:
  "1 \<le> months scenario_bonus_only
   \<and> map Month (build_monthly_dataframe scenario_bonus_only) = [1, 2, 3]
   \<and> yearly_totals (build_monthly_dataframe scenario_bonus_only) =
       Inr [\<lparr>Year = 1, Client_Payments_Gross_y = 0, New_Sale_Income_y = 960,
             Commission_from_Clients_y = 0, Total_Yearly_Earnings = 960\<rparr>]"
proof -
  have h: "1 \<le> months scenario_bonus_only"
    by (simp add: scenario_bonus_only_def)
  have df: "build_monthly_dataframe scenario_bonus_only =
    [\<lparr>Month = 1, New_Clients = 12, Cancellations = Inl 0, Mode = ''Fixed'',
      Net_Activations = 12, Signed_SMEs_Cumulative = 12, Paying_SMEs = 0,
      Client_Payments_Gross = 0, New_Sale_Income = 960, Commission_from_Clients = 0,
      Total_Monthly_Earnings = 960\<rparr>,
     \<lparr>Month = 2, New_Clients = 12, Cancellations = Inl 0, Mode = ''Fixed'',
      Net_Activations = 12, Signed_SMEs_Cumulative = 24, Paying_SMEs = 0,
      Client_Payments_Gross = 0, New_Sale_Income = 0, Commission_from_Clients = 0,
      Total_Monthly_Earnings = 0\<rparr>,
     \<lparr>Month = 3, New_Clients = 12, Cancellations = Inl 0, Mode = ''Fixed'',
      Net_Activations = 12, Signed_SMEs_Cumulative = 36, Paying_SMEs = 0,
      Client_Payments_Gross = 0, New_Sale_Income = 0, Commission_from_Clients = 0,
      Total_Monthly_Earnings = 0\<rparr>]"
    by (simp add: scenario_bonus_only_def upto.simps [of 1] build_monthly_dataframe_def
        month_step_def Let_def)
  have m: "months scenario_bonus_only = 3"
    by (simp add: scenario_bonus_only_def)
  from h yearly_totals_sum_identity [OF h] show ?thesis
    unfolding df m by (simp add: upto.simps [of 1])
qed

section \<open>Non-negative rows\<close>

lemma cohorts_loop_nonneg:
  "0 \<le> default_new_clients p \<Longrightarrow> 0 \<le> override_new_clients p \<Longrightarrow>
     \<forall>c\<in>set (cohorts (loop_upto p n)). 0 \<le> size_c c"
  by (induction n)
     (simp_all add: loop_upto_0 loop_upto_Suc cohorts_month_step Net_Activations_nonneg)

lemma signed_cum_loop_nonneg:
  "0 \<le> default_new_clients p \<Longrightarrow> 0 \<le> override_new_clients p \<Longrightarrow>
     0 \<le> signed_cum (loop_upto p n)"
  by (induction n)
     (simp_all add: loop_upto_0 loop_upto_Suc signed_cum_month_step Net_Activations_nonneg)

lemma recurring_nonneg:
  assumes "\<forall>c\<in>set (cohorts s). 0 \<le> size_c c"
    and "0 \<le> default_new_clients p" and "0 \<le> override_new_clients p"
  shows "0 \<le> Paying_SMEs (new_row p m s) \<and> 0 \<le> Client_Payments_Gross (new_row p m s)"
proof -
  let ?rate = "max (min (churn_percent p / 100) 0.99) 0 :: real"
  have "?rate \<le> 1" by simp
  moreover have "\<forall>c\<in>set (cohorts (month_step p m s)). 0 \<le> size_c c"
    using assms by (simp add: cohorts_month_step Net_Activations_nonneg)
  ultimately have
    "0 \<le> fst (fold (cohort_step p ?rate m) (cohorts (month_step p m s)) (0, 0))
     \<and> 0 \<le> snd (fold (cohort_step p ?rate m) (cohorts (month_step p m s)) (0, 0))"
    by (intro fold_cohort_step_nonneg) simp_all
  then show ?thesis
    by (simp add: recurring_new_row)
qed

lemma New_Clients_nonneg:
  "0 \<le> default_new_clients p \<Longrightarrow> 0 \<le> override_new_clients p \<Longrightarrow>
     0 \<le> New_Clients (new_row p m s)"
  by (simp add: New_Clients_new_row)

lemma New_Sale_Income_nonneg:
  assumes "0 \<le> default_new_clients p" and "0 \<le> override_new_clients p"
    and "0 \<le> new_sale_payout p" and "0 \<le> commission_rate p"
  shows "0 \<le> New_Sale_Income (new_row p m s)"
proof -
  have "0 \<le> new_sale_payout p * real_of_int (New_Clients (new_row p m s))"
    using assms New_Clients_nonneg [of p m s] by simp
  then show ?thesis
    using assms by (simp add: New_Sale_Income_new_row [of p m s] del: of_int_0_le_iff)
qed

lemma new_row_nonneg:
  assumes "\<forall>c\<in>set (cohorts s). 0 \<le> size_c c" and "0 \<le> signed_cum s"
    and "0 \<le> default_new_clients p" and "0 \<le> override_new_clients p"
    and "0 \<le> new_sale_payout p" and "0 \<le> commission_rate p"
  shows "0 \<le> Net_Activations (new_row p m s)"
    and "0 \<le> Signed_SMEs_Cumulative (new_row p m s)"
    and "0 \<le> Paying_SMEs (new_row p m s)"
    and "0 \<le> Client_Payments_Gross (new_row p m s)"
    and "0 \<le> New_Sale_Income (new_row p m s)"
    and "0 \<le> Commission_from_Clients (new_row p m s)"
    and "0 \<le> Total_Monthly_Earnings (new_row p m s)"
proof -
  show net: "0 \<le> Net_Activations (new_row p m s)"
    using assms by (simp add: Net_Activations_nonneg)
  show "0 \<le> Signed_SMEs_Cumulative (new_row p m s)"
    using assms net by (simp add: Signed_new_row signed_cum_month_step)
  show pay: "0 \<le> Paying_SMEs (new_row p m s)"
    and gross: "0 \<le> Client_Payments_Gross (new_row p m s)"
    using recurring_nonneg [of s p m] assms by simp_all
  show bonus: "0 \<le> New_Sale_Income (new_row p m s)"
    using assms by (simp add: New_Sale_Income_nonneg)
  show comm: "0 \<le> Commission_from_Clients (new_row p m s)"
    using gross assms by (simp add: recurring_new_row(3))
  show "0 \<le> Total_Monthly_Earnings (new_row p m s)"
    using bonus comm by (simp add: Total_new_row)
qed

lemma Signed_build:
  "i < nat (months p) \<Longrightarrow>
     Signed_SMEs_Cumulative (build_monthly_dataframe p ! i) = signed_cum (loop_upto p (Suc i))"
  by (simp add: nth_build Signed_new_row loop_upto_Suc)

text \<open>
  C10. For every parameter set that satisfies the input constraints, every emitted row
  has non-negative \<open>Net Activations\<close>, \<open>Signed SMEs (Cumulative)\<close>, \<open>Paying SMEs\<close>,
  \<open>Client Payments (Gross)\<close>, \<open>New Sale Income\<close>, \<open>Commission from Clients\<close> and
  \<open>Total Monthly Earnings\<close>, and \<open>Signed SMEs (Cumulative)\<close> does not decrease from a
  row to the next.
\<close>

theorem rows_nonnegative:
  "declared_constraints p \<Longrightarrow> i < length (build_monthly_dataframe p) \<Longrightarrow>
   (let r = build_monthly_dataframe p ! i in
      0 \<le> Net_Activations r \<and> 0 \<le> Signed_SMEs_Cumulative r \<and> 0 \<le> Paying_SMEs r
      \<and> 0 \<le> Client_Payments_Gross r \<and> 0 \<le> New_Sale_Income r
      \<and> 0 \<le> Commission_from_Clients r \<and> 0 \<le> Total_Monthly_Earnings r)
   \<and> (Suc i < length (build_monthly_dataframe p) \<longrightarrow>
        Signed_SMEs_Cumulative (build_monthly_dataframe p ! i)
          \<le> Signed_SMEs_Cumulative (build_monthly_dataframe p ! Suc i))"
proof -
  assume dc: "declared_constraints p" and i: "i < length (build_monthly_dataframe p)"
  from dc have c: "0 \<le> default_new_clients p" "0 \<le> override_new_clients p"
    "0 \<le> new_sale_payout p" "0 \<le> commission_rate p"
    by (simp_all add: declared_constraints_def)
  from i have i': "i < nat (months p)" by (simp add: length_build)
  let ?s = "loop_upto p i"
  have row: "build_monthly_dataframe p ! i = new_row p (int i + 1) ?s"
    using i' by (rule nth_build)
  have inv: "\<forall>c\<in>set (cohorts ?s). 0 \<le> size_c c" "0 \<le> signed_cum ?s"
    using c by (simp_all add: cohorts_loop_nonneg signed_cum_loop_nonneg)
  have fields: "(let r = build_monthly_dataframe p ! i in
      0 \<le> Net_Activations r \<and> 0 \<le> Signed_SMEs_Cumulative r \<and> 0 \<le> Paying_SMEs r
      \<and> 0 \<le> Client_Payments_Gross r \<and> 0 \<le> New_Sale_Income r
      \<and> 0 \<le> Commission_from_Clients r \<and> 0 \<le> Total_Monthly_Earnings r)"
    unfolding row Let_def
    using new_row_nonneg [OF inv c, of "int i + 1"] by blast
  have mono: "Signed_SMEs_Cumulative (build_monthly_dataframe p ! i)
          \<le> Signed_SMEs_Cumulative (build_monthly_dataframe p ! Suc i)"
    if "Suc i < length (build_monthly_dataframe p)"
  proof -
    from that have "Suc i < nat (months p)" by (simp add: length_build)
    then have "Signed_SMEs_Cumulative (build_monthly_dataframe p ! Suc i)
                 = signed_cum (loop_upto p (Suc i))
                   + Net_Activations (new_row p (int (Suc i) + 1) (loop_upto p (Suc i)))"
      by (simp only: Signed_build loop_upto_Suc [of p "Suc i"] signed_cum_month_step)
    moreover have "0 \<le> Net_Activations (new_row p (int (Suc i) + 1) (loop_upto p (Suc i)))"
      using c by (simp add: Net_Activations_nonneg)
    ultimately show ?thesis
      using i' by (simp add: Signed_build)
  qed
  from fields mono show ?thesis by blast
qed

theorem rows_nonnegative_witness:
  "declared_constraints scenario_override
   \<and> 2 < length (build_monthly_dataframe scenario_override)
   \<and> Suc 2 < length (build_monthly_dataframe scenario_override)
   \<and> 0 \<le> Net_Activations (build_monthly_dataframe scenario_override ! 2)
   \<and> 0 \<le> Signed_SMEs_Cumulative (build_monthly_dataframe scenario_override ! 2)
   \<and> 0 \<le> Paying_SMEs (build_monthly_dataframe scenario_override ! 2)
   \<and> 0 \<le> Client_Payments_Gross (build_monthly_dataframe scenario_override ! 2)
   \<and> 0 \<le> New_Sale_Income (build_monthly_dataframe scenario_override ! 2)
   \<and> 0 \<le> Commission_from_Clients (build_monthly_dataframe scenario_override ! 2)
   \<and> 0 \<le> Total_Monthly_Earnings (build_monthly_dataframe scenario_override ! 2)
   \<and> Signed_SMEs_Cumulative (build_monthly_dataframe scenario_override ! 2)
        \<le> Signed_SMEs_Cumulative (build_monthly_dataframe scenario_override ! Suc 2)"
proof -
  have dc: "declared_constraints scenario_override"
    by (simp add: declared_constraints_def scenario_override_def)
  have len: "length (build_monthly_dataframe scenario_override) = 12"
    by (simp add: length_build) (simp add: scenario_override_def)
  have i: "2 < length (build_monthly_dataframe scenario_override)"
    by (simp add: len)
  from dc len rows_nonnegative [OF dc i] show ?thesis
    by (simp add: Let_def)
qed

end
